theory Spec2Isabelle
  imports Main "HOL-Library.Char_ord" "HOL-Library.List_Lexorder"
begin

section \<open>pic-sorter: a shallow embedding of \<^verbatim>\<open>main.go\<close>\<close>

text \<open>
  Go strings are byte sequences, so a Go \<^verbatim>\<open>string\<close> is a \<^typ>\<open>string\<close> (a list of
  \<^typ>\<open>char\<close>, one per byte). The program runs on a Unix system: the path separator of
  \<^verbatim>\<open>path/filepath\<close> is the slash and there are no volume names.
\<close>

subsection \<open>Package \<^verbatim>\<open>strings\<close>\<close>

definition HasPrefix :: "string \<Rightarrow> string \<Rightarrow> bool" where
  \<comment> \<open>\<^verbatim>\<open>len(s) >= len(prefix) && s[:len(prefix)] == prefix\<close>\<close>
  "HasPrefix s pre = (length pre \<le> length s \<and> take (length pre) s = pre)"

definition HasSuffix :: "string \<Rightarrow> string \<Rightarrow> bool" where
  \<comment> \<open>\<^verbatim>\<open>len(s) >= len(suffix) && s[len(s)-len(suffix):] == suffix\<close>\<close>
  "HasSuffix s suf = (length suf \<le> length s \<and> drop (length s - length suf) s = suf)"

text \<open>
  \<^verbatim>\<open>strings.ReplaceAll(s, old, new)\<close> for a non-empty \<^verbatim>\<open>old\<close>: the non-overlapping
  occurrences of \<^verbatim>\<open>old\<close> are replaced from left to right. (With an empty \<^verbatim>\<open>old\<close> Go
  inserts \<^verbatim>\<open>new\<close> around every UTF-8 sequence; the program never calls it so, and the
  equation below leaves that case out by returning \<^verbatim>\<open>s\<close>.)
\<close>

function ReplaceAll :: "string \<Rightarrow> string \<Rightarrow> string \<Rightarrow> string" where
  "ReplaceAll s old new =
     (if s = [] then []
      else if old \<noteq> [] \<and> HasPrefix s old
        then new @ ReplaceAll (drop (length old) s) old new
        else hd s # ReplaceAll (tl s) old new)"
  by pat_completeness auto
termination
  by (relation "measure (\<lambda>(s, old, new). length s)") auto

declare ReplaceAll.simps [simp del]

fun strings_Join :: "string list \<Rightarrow> string \<Rightarrow> string" where
  \<comment> \<open>\<^verbatim>\<open>strings.Join(elems, sep)\<close>\<close>
  "strings_Join [] sep = []"
| "strings_Join [e] sep = e"
| "strings_Join (e # es) sep = e @ sep @ strings_Join es sep"

fun Split :: "char \<Rightarrow> string \<Rightarrow> string list" where
  \<comment> \<open>\<^verbatim>\<open>strings.Split(s, sep)\<close> for a one-byte separator: always at least one field\<close>
  "Split sep [] = [[]]"
| "Split sep (c # cs) =
     (if c = sep then [] # Split sep cs
      else (case Split sep cs of
              [] \<Rightarrow> [[c]]
            | f # fs \<Rightarrow> (c # f) # fs))"

subsection \<open>The name sanitizer\<close>

definition sanitize :: "string \<Rightarrow> string" where
  \<comment> \<open>\<^verbatim>\<open>return strings.ReplaceAll(name, " ", "_")\<close>\<close>
  "sanitize name = ReplaceAll name '' '' ''_''"

subsection \<open>Package \<^verbatim>\<open>path/filepath\<close> (Unix)\<close>

text \<open>
  The Go standard library is not part of the repository; the three functions the program
  calls are written here after their Unix implementation. \<^verbatim>\<open>Clean\<close> reads the path
  element by element and keeps the output as the list of elements written so far:
  an empty element and \<^verbatim>\<open>.\<close> are dropped; \<^verbatim>\<open>..\<close> removes the last element written when
  there is one that is not itself a kept \<^verbatim>\<open>..\<close>, is dropped at the root of a rooted path,
  and is kept otherwise; any other element is written.
\<close>

definition clean_step :: "bool \<Rightarrow> string list \<Rightarrow> string \<Rightarrow> string list" where
  "clean_step rooted out e =
     (if e = [] \<or> e = ''.'' then out
      else if e = ''..'' then
        (if out \<noteq> [] \<and> last out \<noteq> ''..'' then butlast out
         else if rooted then out
         else out @ [''..''])
      else out @ [e])"

definition Clean :: "string \<Rightarrow> string" where
  "Clean path =
     (if path = [] then ''.''
      else
        let rooted = (hd path = CHR ''/'');
            out = foldl (clean_step rooted) [] (Split (CHR ''/'') path)
        in if rooted then CHR ''/'' # strings_Join out ''/''
           else if out = [] then ''.''
           else strings_Join out ''/'')"

definition Join :: "string list \<Rightarrow> string" where
  \<comment> \<open>\<^verbatim>\<open>filepath.Join(elem...)\<close>: from the first non-empty element on, joined and cleaned\<close>
  "Join elem =
     (case dropWhile (\<lambda>e. e = []) elem of
        [] \<Rightarrow> []
      | es \<Rightarrow> Clean (strings_Join es ''/''))"

definition Base :: "string \<Rightarrow> string" where
  \<comment> \<open>\<^verbatim>\<open>filepath.Base(path)\<close>: the last element, trailing slashes stripped first\<close>
  "Base path =
     (if path = [] then ''.''
      else
        let stripped = rev (dropWhile (\<lambda>c. c = CHR ''/'') (rev path));
            b = rev (takeWhile (\<lambda>c. c \<noteq> CHR ''/'') (rev stripped))
        in if b = [] then ''/'' else b)"

subsection \<open>Values of the program\<close>

text \<open>
  An \<^verbatim>\<open>error\<close> is represented by the text its \<^verbatim>\<open>Error()\<close> method returns, which is all
  the program does with one. A \<^verbatim>\<open>float64\<close> is a value of a type parameter \<open>'f\<close>: the
  program only passes coordinates on and formats them.
\<close>

type_synonym error = string

text \<open>
  What \<^verbatim>\<open>json.Unmarshal\<close> stores in an \<^verbatim>\<open>interface{}\<close>: \<^verbatim>\<open>nil\<close>, \<^verbatim>\<open>bool\<close>,
  \<^verbatim>\<open>float64\<close>, \<^verbatim>\<open>string\<close>, \<^verbatim>\<open>[]interface{}\<close> or \<^verbatim>\<open>map[string]interface{}\<close>. A decoded
  map is the list of its entries, read with \<^const>\<open>map_of\<close>.
\<close>

datatype 'f json =
    JNull
  | JBool bool
  | JNumber 'f
  | JString string
  | JArray "'f json list"
  | JObject "(string \<times> 'f json) list"

record DirEntry =
  Name :: string
  IsDir :: bool

record Response =
  StatusCode :: int
  Body :: "error + string"  \<comment> \<open>what \<^verbatim>\<open>io.ReadAll(resp.Body)\<close> returns\<close>

text \<open>
  A \<^verbatim>\<open>map[string]string\<close> is a partial map; indexing it at a missing key gives the
  zero value, the empty string.
\<close>

type_synonym location = "string \<rightharpoonup> string"

definition index :: "location \<Rightarrow> string \<Rightarrow> string" where
  "index m k = (case m k of None \<Rightarrow> [] | Some v \<Rightarrow> v)"

subsection \<open>The outside world\<close>

text \<open>
  The file system, the EXIF library, the network and the JSON decoder are parameters. A
  call that can change the world takes the world and returns the new one. The state of a
  run is the world and the trace of what the program has done to it, in order: the calls it
  made and the text it wrote to standard output.
\<close>

datatype event =
    ReadDir string
  | Open string
  | Get string
  | MkdirAll string
  | Rename string string
  | Stdout string
  | Fatal error

record 'w state =
  world :: 'w
  trace :: "event list"

record ('w, 'file, 'exif, 'f) env =
  os_ReadDir :: "string \<Rightarrow> 'w \<Rightarrow> (error + DirEntry list) \<times> 'w"
  os_Open :: "string \<Rightarrow> 'w \<Rightarrow> (error + 'file) \<times> 'w"
  exif_Decode :: "'file \<Rightarrow> error + 'exif"
  LatLong :: "'exif \<Rightarrow> error + 'f \<times> 'f"
  http_Get :: "string \<Rightarrow> 'w \<Rightarrow> (error + Response) \<times> 'w"
  json_Unmarshal :: "string \<Rightarrow> error + (string \<times> 'f json) list"
  os_MkdirAll :: "string \<Rightarrow> 'w \<Rightarrow> error option \<times> 'w"
  os_Rename :: "string \<Rightarrow> string \<Rightarrow> 'w \<Rightarrow> error option \<times> 'w"
  fmt_f :: "'f \<Rightarrow> string"  \<comment> \<open>the verb \<^verbatim>\<open>%f\<close> on a \<^verbatim>\<open>float64\<close>\<close>
  fmt_g :: "'f \<Rightarrow> string"  \<comment> \<open>the verb \<^verbatim>\<open>%v\<close> on a \<^verbatim>\<open>float64\<close>\<close>

definition emit :: "event \<Rightarrow> 'w state \<Rightarrow> 'w state" where
  "emit e s = s\<lparr>trace := trace s @ [e]\<rparr>"

definition Printf :: "string \<Rightarrow> 'w state \<Rightarrow> 'w state" where
  "Printf text s = emit (Stdout text) s"

definition newline :: string where
  "newline = [CHR 0x0A]"

subsection \<open>Package \<^verbatim>\<open>fmt\<close>\<close>

definition digit :: "nat \<Rightarrow> char" where
  \<comment> \<open>the decimal digit of a number below ten\<close>
  "digit n = ''0123456789'' ! n"

function decimal :: "nat \<Rightarrow> string" where
  "decimal n = (if n < 10 then [digit n] else decimal (n div 10) @ [digit (n mod 10)])"
  by pat_completeness auto
termination
  by (relation "measure id") auto

declare decimal.simps [simp del]

definition Sprintf_d :: "int \<Rightarrow> string" where
  \<comment> \<open>the verb \<^verbatim>\<open>%d\<close> on an \<^verbatim>\<open>int\<close>\<close>
  "Sprintf_d i = (if i < 0 then CHR ''-'' # decimal (nat (- i)) else decimal (nat i))"

text \<open>
  The verb \<^verbatim>\<open>%v\<close> on a decoded JSON value: \<^verbatim>\<open>nil\<close> prints as \<^verbatim>\<open><nil>\<close>, a string as
  itself, a slice as its elements between brackets, a map as its entries in key order.
\<close>

fun Sprintf_v :: "('f \<Rightarrow> string) \<Rightarrow> 'f json \<Rightarrow> string" where
  "Sprintf_v g JNull = ''<nil>''"
| "Sprintf_v g (JBool b) = (if b then ''true'' else ''false'')"
| "Sprintf_v g (JNumber x) = g x"
| "Sprintf_v g (JString s) = s"
| "Sprintf_v g (JArray vs) = ''['' @ strings_Join (map (Sprintf_v g) vs) '' '' @ '']''"
| "Sprintf_v g (JObject kvs) =
     ''map['' @
     strings_Join
       (map snd (sort_key fst (map (\<lambda>(k, v). (k, k @ '':'' @ Sprintf_v g v)) kvs))) '' ''
     @ '']''"

subsection \<open>The EXIF GPS extractor\<close>

definition getGeoInfo ::
  "('w, 'file, 'exif, 'f) env \<Rightarrow> string \<Rightarrow> 'w state \<Rightarrow> (error + 'f \<times> 'f) \<times> 'w state" where
  "getGeoInfo env imagePath s =
     (case os_Open env imagePath (world s) of (opened, w) \<Rightarrow>
        let s1 = emit (Open imagePath) (s\<lparr>world := w\<rparr>) in
        (case opened of
           Inl err \<Rightarrow> (Inl err, s1)
         | Inr file \<Rightarrow>
             (case exif_Decode env file of
                Inl err \<Rightarrow> (Inl err, s1)
              | Inr x \<Rightarrow>
                  (case LatLong env x of
                     Inl err \<Rightarrow> (Inl err, s1)
                   | Inr latlon \<Rightarrow> (Inr latlon, s1)))))"

subsection \<open>The reverse-geocoding client\<close>

definition getString :: "('f \<Rightarrow> string) \<Rightarrow> (string \<times> 'f json) list \<Rightarrow> string \<Rightarrow> string" where
  \<comment> \<open>the first argument is the float formatter \<^verbatim>\<open>%v\<close> needs\<close>
  "getString g data key =
     (case map_of data key of
        Some value \<Rightarrow> Sprintf_v g value
      | None \<Rightarrow> ''Unknown'')"

definition reverse_url :: "('f \<Rightarrow> string) \<Rightarrow> 'f \<Rightarrow> 'f \<Rightarrow> string" where
  "reverse_url f lat lon =
     ''https://nominatim.openstreetmap.org/reverse?format=json&lat='' @ f lat
     @ ''&lon='' @ f lon @ ''&zoom=10''"

definition getLocationDetails ::
  "('w, 'file, 'exif, 'f) env \<Rightarrow> 'f \<Rightarrow> 'f \<Rightarrow> 'w state \<Rightarrow> (error + location) \<times> 'w state" where
  "getLocationDetails env lat lon s =
     (let url = reverse_url (fmt_f env) lat lon in
      case http_Get env url (world s) of (got, w) \<Rightarrow>
        let s1 = emit (Get url) (s\<lparr>world := w\<rparr>) in
        (case got of
           Inl err \<Rightarrow> (Inl err, s1)
         | Inr resp \<Rightarrow>
             if StatusCode resp \<noteq> 200
             then (Inl (''API error: '' @ Sprintf_d (StatusCode resp)), s1)
             else
               (case Body resp of
                  Inl err \<Rightarrow> (Inl err, s1)
                | Inr body \<Rightarrow>
                    (case json_Unmarshal env body of
                       Inl err \<Rightarrow> (Inl err, s1)
                     | Inr data \<Rightarrow>
                         (case map_of data ''address'' of
                            Some (JObject address) \<Rightarrow>
                              (Inr [''country'' \<mapsto> getString (fmt_g env) address ''country'',
                                    ''state'' \<mapsto> getString (fmt_g env) address ''state'',
                                    ''state_district'' \<mapsto>
                                      getString (fmt_g env) address ''state_district'',
                                    ''county'' \<mapsto> getString (fmt_g env) address ''county''],
                               s1)
                          | _ \<Rightarrow> (Inl ''invalid address data'', s1))))))"

subsection \<open>The mover\<close>

definition folderPath :: "location \<Rightarrow> string" where
  \<comment> \<open>the local \<^verbatim>\<open>folderPath\<close> of \<^verbatim>\<open>moveImage\<close>\<close>
  "folderPath location =
     Join [''sorted_images'',
           sanitize (index location ''country''),
           sanitize (index location ''state''),
           sanitize (index location ''state_district''),
           sanitize (index location ''county'')]"

definition newImagePath :: "string \<Rightarrow> location \<Rightarrow> string" where
  \<comment> \<open>the local \<^verbatim>\<open>newImagePath\<close> of \<^verbatim>\<open>moveImage\<close>\<close>
  "newImagePath imagePath location = Join [folderPath location, Base imagePath]"

definition moveImage ::
  "('w, 'file, 'exif, 'f) env \<Rightarrow> string \<Rightarrow> location \<Rightarrow> 'w state \<Rightarrow> error option \<times> 'w state" where
  "moveImage env imagePath location s =
     (case os_MkdirAll env (folderPath location) (world s) of (made, w1) \<Rightarrow>
        let s1 = emit (MkdirAll (folderPath location)) (s\<lparr>world := w1\<rparr>) in
        (case made of
           Some err \<Rightarrow> (Some err, s1)
         | None \<Rightarrow>
             (case os_Rename env imagePath (newImagePath imagePath location) (world s1) of
                (renamed, w2) \<Rightarrow>
                  (renamed,
                   emit (Rename imagePath (newImagePath imagePath location))
                     (s1\<lparr>world := w2\<rparr>)))))"

subsection \<open>The driver\<close>

definition process_entry ::
  "('w, 'file, 'exif, 'f) env \<Rightarrow> string \<Rightarrow> DirEntry \<Rightarrow> 'w state \<Rightarrow> 'w state" where
  \<comment> \<open>the body of the loop of \<^verbatim>\<open>processImages\<close>; \<^verbatim>\<open>continue\<close> ends it\<close>
  "process_entry env directory file s =
     (if \<not> IsDir file \<and>
         (HasSuffix (Name file) ''.jpg'' \<or> HasSuffix (Name file) ''.jpeg''
          \<or> HasSuffix (Name file) ''.png'')
      then
        let imagePath = Join [directory, Name file] in
        (case getGeoInfo env imagePath s of
           (Inl err, s1) \<Rightarrow>
             Printf (''No GPS data found for '' @ Name file @ newline) s1
         | (Inr (lat, lon), s1) \<Rightarrow>
             (case getLocationDetails env lat lon s1 of
                (Inl err, s2) \<Rightarrow>
                  Printf (''Error getting location for '' @ Name file @ '': '' @ err @ newline) s2
              | (Inr location, s2) \<Rightarrow>
                  let s3 = Printf (''Moving '' @ Name file @ '' to ''
                                   @ index location ''country'' @ ''/''
                                   @ index location ''state'' @ ''/''
                                   @ index location ''state_district'' @ ''/''
                                   @ index location ''county'' @ newline) s2
                  in (case moveImage env imagePath location s3 of
                        (Some err, s4) \<Rightarrow> Printf (''Error moving file: '' @ err @ newline) s4
                      | (None, s4) \<Rightarrow> s4)))
      else s)"

fun range_files ::
  "('w, 'file, 'exif, 'f) env \<Rightarrow> string \<Rightarrow> DirEntry list \<Rightarrow> 'w state \<Rightarrow> 'w state" where
  \<comment> \<open>\<^verbatim>\<open>for _, file := range files\<close>\<close>
  "range_files env directory [] s = s"
| "range_files env directory (file # files) s =
     range_files env directory files (process_entry env directory file s)"

datatype exit = Returned | Exited int

definition processImages ::
  "('w, 'file, 'exif, 'f) env \<Rightarrow> string \<Rightarrow> 'w state \<Rightarrow> exit \<times> 'w state" where
  \<comment> \<open>\<^verbatim>\<open>log.Fatal\<close> writes the error to standard error and exits with status 1\<close>
  "processImages env directory s =
     (case os_ReadDir env directory (world s) of (listed, w) \<Rightarrow>
        let s0 = emit (ReadDir directory) (s\<lparr>world := w\<rparr>) in
        (case listed of
           Inl err \<Rightarrow> (Exited 1, emit (Fatal err) s0)
         | Inr files \<Rightarrow> (Returned, range_files env directory files s0)))"

definition main :: "('w, 'file, 'exif, 'f) env \<Rightarrow> 'w state \<Rightarrow> exit \<times> 'w state" where
  "main env s = processImages env ''images'' s"

subsection \<open>Notions used to state the results\<close>

definition plain_element :: "string \<Rightarrow> bool" where
  \<comment> \<open>a single ordinary path element: not empty, no slash, neither \<^verbatim>\<open>.\<close> nor \<^verbatim>\<open>..\<close>\<close>
  "plain_element e = (e \<noteq> [] \<and> CHR ''/'' \<notin> set e \<and> e \<noteq> ''.'' \<and> e \<noteq> ''..'')"

definition levels_below_root :: "string \<Rightarrow> nat" where
  \<comment> \<open>the number of elements of a cleaned relative path below its first element\<close>
  "levels_below_root path = length (Split (CHR ''/'') path) - 1"

definition candidate :: "DirEntry \<Rightarrow> bool" where
  \<comment> \<open>the condition of the loop of \<^verbatim>\<open>processImages\<close> on an entry\<close>
  "candidate file =
     (\<not> IsDir file \<and>
      (HasSuffix (Name file) ''.jpg'' \<or> HasSuffix (Name file) ''.jpeg''
       \<or> HasSuffix (Name file) ''.png''))"

definition ToLower :: "char \<Rightarrow> char" where
  \<comment> \<open>an ASCII letter in lower case; the program itself never folds case\<close>
  "ToLower c =
     (case map_of (zip ''ABCDEFGHIJKLMNOPQRSTUVWXYZ'' ''abcdefghijklmnopqrstuvwxyz'') c of
        Some l \<Rightarrow> l
      | None \<Rightarrow> c)"

fun opened :: "event list \<Rightarrow> string list" where
  \<comment> \<open>the paths opened, in order\<close>
  "opened [] = []"
| "opened (Open p # t) = p # opened t"
| "opened (e # t) = opened t"

text \<open>
  A small world for running the program on concrete inputs: a directory \<^verbatim>\<open>images\<close> with
  a text file, an image without GPS tags, an image for whose coordinates the service
  answers 503, an image near San Francisco, an image with an upper-case extension and a
  subdirectory named like an image. Its coordinates are whole degrees, so a \<^verbatim>\<open>float64\<close>
  is an \<^typ>\<open>int\<close> here, \<^verbatim>\<open>%f\<close> prints it with six zeros after the point and \<^verbatim>\<open>%v\<close>
  prints it as the integer.
\<close>

definition demo_files :: "DirEntry list" where
  "demo_files =
     [\<lparr>Name = ''note.txt'', IsDir = False\<rparr>,
      \<lparr>Name = ''nogps.png'', IsDir = False\<rparr>,
      \<lparr>Name = ''broken.jpg'', IsDir = False\<rparr>,
      \<lparr>Name = ''trip.jpg'', IsDir = False\<rparr>,
      \<lparr>Name = ''IMG.JPG'', IsDir = False\<rparr>,
      \<lparr>Name = ''album.jpeg'', IsDir = True\<rparr>]"

definition demo_address :: "(string \<times> int json) list" where
  "demo_address =
     [(''country'', JString ''United States''),
      (''state'', JString ''California''),
      (''county'', JString ''San Francisco County'')]"

definition demo_env :: "(unit, string, string, int) env" where
  "demo_env =
     \<lparr>os_ReadDir = (\<lambda>d w. if d = ''images'' then (Inr demo_files, w)
                            else (Inl ''no such file or directory'', w)),
      os_Open = (\<lambda>p w. (Inr p, w)),
      exif_Decode = (\<lambda>file. Inr file),
      LatLong = (\<lambda>x. if x = ''images/nogps.png'' then Inl ''tag not present''
                      else if x = ''images/broken.jpg'' then Inr (1, 2)
                      else Inr (38, - 122)),
      http_Get = (\<lambda>url w.
         if url = ''https://nominatim.openstreetmap.org/reverse?format=json&lat=1.000000&lon=2.000000&zoom=10''
         then (Inr \<lparr>StatusCode = 503, Body = Inr []\<rparr>, w)
         else (Inr \<lparr>StatusCode = 200, Body = Inr ''body''\<rparr>, w)),
      json_Unmarshal = (\<lambda>body. Inr [(''address'', JObject demo_address)]),
      os_MkdirAll = (\<lambda>p w. (None, w)),
      os_Rename = (\<lambda>old new w. (None, w)),
      fmt_f = (\<lambda>x. Sprintf_d x @ ''.000000''),
      fmt_g = Sprintf_d\<rparr>"

definition demo_start :: "unit state" where
  "demo_start = \<lparr>world = (), trace = []\<rparr>"

section \<open>Verification\<close>

subsection \<open>Facts about the sanitizer\<close>

lemma ReplaceAll_Nil: "ReplaceAll [] old new = []"
  by (subst ReplaceAll.simps) simp

lemma ReplaceAll_byte_Cons:
  "ReplaceAll (c # cs) [a] [b] = (if c = a then b else c) # ReplaceAll cs [a] [b]"
  by (subst ReplaceAll.simps) (simp add: HasPrefix_def)

lemma ReplaceAll_byte_map:
  "ReplaceAll s [a] [b] = map (\<lambda>c. if c = a then b else c) s"
  by (induction s) (simp_all add: ReplaceAll_Nil ReplaceAll_byte_Cons)

lemma sanitize_map:
  "sanitize s = map (\<lambda>c. if c = CHR '' '' then CHR ''_'' else c) s"
  by (simp add: sanitize_def ReplaceAll_byte_map)

lemma sanitize_Nil: "sanitize [] = []"
  by (simp add: sanitize_map)

lemma sanitize_Cons:
  "sanitize (c # cs) = (if c = CHR '' '' then CHR ''_'' else c) # sanitize cs"
  by (simp add: sanitize_map)

lemma sanitize_no_space: "CHR '' '' \<notin> set (sanitize s)"
  by (auto simp: sanitize_map)

lemma sanitize_fixpoint: "CHR '' '' \<notin> set s \<Longrightarrow> sanitize s = s"
  by (induction s) (auto simp: sanitize_Nil sanitize_Cons)

text \<open>
  Claim C3. The sanitizer is defined on every string; its result holds no ASCII space,
  sanitizing twice is sanitizing once, the length is kept, a byte other than the space stays
  what it was at its position, and a space becomes an underscore at its position.
\<close>

theorem sanitize_total:
  "CHR '' '' \<notin> set (sanitize s)
   \<and> sanitize (sanitize s) = sanitize s
   \<and> length (sanitize s) = length s
   \<and> (\<forall>i < length s. s ! i \<noteq> CHR '' '' \<longrightarrow> sanitize s ! i = s ! i)
   \<and> (\<forall>i < length s. s ! i = CHR '' '' \<longrightarrow> sanitize s ! i = CHR ''_'')"
proof -
  have "sanitize (sanitize s) = sanitize s"
    by (rule sanitize_fixpoint) (rule sanitize_no_space)
  moreover have "length (sanitize s) = length s"
    by (simp add: sanitize_map)
  moreover have "\<forall>i < length s. s ! i \<noteq> CHR '' '' \<longrightarrow> sanitize s ! i = s ! i"
    by (simp add: sanitize_map)
  moreover have "\<forall>i < length s. s ! i = CHR '' '' \<longrightarrow> sanitize s ! i = CHR ''_''"
    by (simp add: sanitize_map)
  ultimately show ?thesis
    using sanitize_no_space by blast
qed

theorem sanitize_total_witness:
  "sanitize ''a/b c'' ! 1 = CHR ''/'' \<and> sanitize ''a/b c'' ! 3 = CHR ''_''
   \<and> length (sanitize ''a/b c'') = 5 \<and> CHR '' '' \<notin> set (sanitize ''a/b c'')"
  using sanitize_total [of "''a/b c''"] by simp

subsection \<open>Facts about paths\<close>

lemma Split_not_Nil: "Split sep s \<noteq> []"
  by (induction s) (auto split: list.splits)

lemma Split_no_sep: "sep \<notin> set e \<Longrightarrow> Split sep e = [e]"
  by (induction e) (auto split: list.splits)

lemma Split_append_sep: "sep \<notin> set e \<Longrightarrow> Split sep (e @ sep # rest) = e # Split sep rest"
  by (induction e) (auto split: list.splits)

lemma strings_Join_Cons:
  "es \<noteq> [] \<Longrightarrow> strings_Join (e # es) sep = e @ sep @ strings_Join es sep"
  by (cases es) simp_all

lemma strings_Join_snoc:
  "es \<noteq> [] \<Longrightarrow> strings_Join (es @ [b]) sep = strings_Join es sep @ sep @ b"
  by (induction es sep rule: strings_Join.induct) (simp_all add: strings_Join_Cons)

lemma Split_Join:
  "es \<noteq> [] \<Longrightarrow> list_all (\<lambda>e. sep \<notin> set e) es \<Longrightarrow> Split sep (strings_Join es [sep]) = es"
proof (induction es)
  case Nil
  then show ?case by simp
next
  case (Cons e es)
  show ?case
  proof (cases "es = []")
    case True
    with Cons.prems show ?thesis by (simp add: Split_no_sep)
  next
    case False
    with Cons show ?thesis
      by (simp add: strings_Join_Cons Split_append_sep)
  qed
qed

lemma foldl_clean_plain:
  "list_all plain_element es \<Longrightarrow> foldl (clean_step rooted) out es = out @ es"
  by (induction es arbitrary: out) (auto simp: clean_step_def plain_element_def)

lemma plain_element_no_sep: "list_all plain_element es \<Longrightarrow> list_all (\<lambda>e. CHR ''/'' \<notin> set e) es"
  by (induction es) (auto simp: plain_element_def)

lemma strings_Join_plain_element_hd:
  "es \<noteq> [] \<Longrightarrow> list_all plain_element es \<Longrightarrow>
     strings_Join es ''/'' \<noteq> [] \<and> hd (strings_Join es ''/'') \<noteq> CHR ''/''"
  by (cases es; cases "tl es"; cases "hd es") (auto simp: plain_element_def strings_Join_Cons)

lemma Clean_plain:
  assumes "es \<noteq> []" and "list_all plain_element es"
  shows "Clean (strings_Join es ''/'') = strings_Join es ''/''"
proof -
  have "Split (CHR ''/'') (strings_Join es ''/'') = es"
    using assms Split_Join [of es "CHR ''/''"] by (simp add: plain_element_no_sep)
  then show ?thesis
    using assms strings_Join_plain_element_hd [of es]
    by (simp add: Clean_def foldl_clean_plain)
qed

lemma Join_plain:
  assumes "es \<noteq> []" and "list_all plain_element es"
  shows "Join es = strings_Join es ''/''"
proof -
  have "dropWhile (\<lambda>e. e = []) es = es"
    using assms by (cases es) (auto simp: plain_element_def)
  then show ?thesis
    using assms by (cases es) (simp_all add: Join_def Clean_plain)
qed

lemma Join_dir_base:
  assumes "es \<noteq> []" and "list_all plain_element es" and "plain_element b"
  shows "Join [strings_Join es ''/'', b] = strings_Join es ''/'' @ ''/'' @ b"
proof -
  have ne: "strings_Join es ''/'' \<noteq> []"
    using assms strings_Join_plain_element_hd by blast
  have "Clean (strings_Join (es @ [b]) ''/'') = strings_Join (es @ [b]) ''/''"
    using assms by (intro Clean_plain) simp_all
  then show ?thesis
    using ne assms(1) by (simp add: Join_def strings_Join_snoc)
qed


subsection \<open>The mover\<close>

lemma moveImage_trace:
  "trace (snd (moveImage env imagePath location s)) =
     trace s @ MkdirAll (folderPath location) #
       (case fst (os_MkdirAll env (folderPath location) (world s)) of
          Some err \<Rightarrow> []
        | None \<Rightarrow> [Rename imagePath (newImagePath imagePath location)])"
  by (simp add: moveImage_def emit_def Let_def split: prod.splits option.splits)

lemma folderPath_plain:
  assumes "plain_element (sanitize (index location ''country''))"
    and "plain_element (sanitize (index location ''state''))"
    and "plain_element (sanitize (index location ''state_district''))"
    and "plain_element (sanitize (index location ''county''))"
  shows "folderPath location =
     strings_Join [''sorted_images'', sanitize (index location ''country''),
       sanitize (index location ''state''), sanitize (index location ''state_district''),
       sanitize (index location ''county'')] ''/''"
proof -
  have "plain_element ''sorted_images''"
    by (simp add: plain_element_def)
  with assms show ?thesis
    unfolding folderPath_def by (intro Join_plain) simp_all
qed

lemma newImagePath_plain:
  assumes "plain_element (sanitize (index location ''country''))"
    and "plain_element (sanitize (index location ''state''))"
    and "plain_element (sanitize (index location ''state_district''))"
    and "plain_element (sanitize (index location ''county''))"
    and "plain_element (Base imagePath)"
  shows "newImagePath imagePath location = folderPath location @ ''/'' @ Base imagePath"
proof -
  have "plain_element ''sorted_images''"
    by (simp add: plain_element_def)
  with assms show ?thesis
    unfolding newImagePath_def folderPath_plain [OF assms(1-4)]
    by (intro Join_dir_base) simp_all
qed



text \<open>
  Claim C9, amended. When each of the four sanitized fields is a single ordinary path
  element, the destination directory is \<^verbatim>\<open>sorted_images\<close> followed by exactly these four
  elements, so it lies four levels below \<^verbatim>\<open>sorted_images\<close>. For an address with country
  US, state California, county Alameda County and no state district the client fills in
  \<^verbatim>\<open>Unknown\<close>, and a file moved with the place (US, California, Unknown, Alameda County)
  gets the path \<^verbatim>\<open>sorted_images/US/California/Unknown/Alameda_County/\<close> followed by its
  base name.
\<close>

theorem mover_four_levels:
  "(plain_element (sanitize (index location ''country''))
    \<and> plain_element (sanitize (index location ''state''))
    \<and> plain_element (sanitize (index location ''state_district''))
    \<and> plain_element (sanitize (index location ''county'')) \<longrightarrow>
      Split (CHR ''/'') (folderPath location) =
        [''sorted_images'', sanitize (index location ''country''),
         sanitize (index location ''state''), sanitize (index location ''state_district''),
         sanitize (index location ''county'')]
      \<and> levels_below_root (folderPath location) = 4)
   \<and> getString g
        [(''country'', JString ''US''), (''state'', JString ''California''),
         (''county'', JString ''Alameda County'')] ''state_district'' = ''Unknown''
   \<and> (plain_element (Base imagePath) \<longrightarrow>
        newImagePath imagePath
          [''country'' \<mapsto> ''US'', ''state'' \<mapsto> ''California'',
           ''state_district'' \<mapsto> ''Unknown'', ''county'' \<mapsto> ''Alameda County'']
        = ''sorted_images/US/California/Unknown/Alameda_County/'' @ Base imagePath)"
proof -
  have "Split (CHR ''/'') (folderPath location) =
        [''sorted_images'', sanitize (index location ''country''),
         sanitize (index location ''state''), sanitize (index location ''state_district''),
         sanitize (index location ''county'')]
      \<and> levels_below_root (folderPath location) = 4"
    if p: "plain_element (sanitize (index location ''country''))"
      "plain_element (sanitize (index location ''state''))"
      "plain_element (sanitize (index location ''state_district''))"
      "plain_element (sanitize (index location ''county''))"
  proof -
    let ?es = "[''sorted_images'', sanitize (index location ''country''),
         sanitize (index location ''state''), sanitize (index location ''state_district''),
         sanitize (index location ''county'')]"
    have "list_all plain_element ?es"
      using p by (simp add: plain_element_def)
    then have "Split (CHR ''/'') (strings_Join ?es ''/'') = ?es"
      by (intro Split_Join plain_element_no_sep) simp_all
    then show ?thesis
      using p by (simp add: folderPath_plain levels_below_root_def)
  qed
  moreover have "getString g
        [(''country'', JString ''US''), (''state'', JString ''California''),
         (''county'', JString ''Alameda County'')] ''state_district'' = ''Unknown''"
    by (simp add: getString_def)
  moreover have "newImagePath imagePath
          [''country'' \<mapsto> ''US'', ''state'' \<mapsto> ''California'',
           ''state_district'' \<mapsto> ''Unknown'', ''county'' \<mapsto> ''Alameda County'']
        = ''sorted_images/US/California/Unknown/Alameda_County/'' @ Base imagePath"
    if b: "plain_element (Base imagePath)"
  proof -
    let ?u = "[''country'' \<mapsto> ''US'', ''state'' \<mapsto> ''California'',
           ''state_district'' \<mapsto> ''Unknown'', ''county'' \<mapsto> ''Alameda County'']"
    have fu: "folderPath ?u = ''sorted_images/US/California/Unknown/Alameda_County''"
      by (simp add: folderPath_def Join_def Clean_def clean_step_def sanitize_map index_def)
    have "newImagePath imagePath ?u = folderPath ?u @ ''/'' @ Base imagePath"
      by (rule newImagePath_plain) (simp_all add: b, simp_all add: plain_element_def sanitize_map index_def)
    then show ?thesis
      by (simp add: fu)
  qed
  ultimately show ?thesis
    by blast
qed

theorem mover_four_levels_witness:
  "levels_below_root (folderPath
     [''country'' \<mapsto> ''US'', ''state'' \<mapsto> ''California'',
      ''state_district'' \<mapsto> ''Unknown'', ''county'' \<mapsto> ''Alameda County'']) = 4
   \<and> newImagePath ''images/IMG_0001.jpg''
          [''country'' \<mapsto> ''US'', ''state'' \<mapsto> ''California'',
           ''state_district'' \<mapsto> ''Unknown'', ''county'' \<mapsto> ''Alameda County'']
        = ''sorted_images/US/California/Unknown/Alameda_County/IMG_0001.jpg''"
  using mover_four_levels [of
     "[''country'' \<mapsto> ''US'', ''state'' \<mapsto> ''California'',
      ''state_district'' \<mapsto> ''Unknown'', ''county'' \<mapsto> ''Alameda County'']"
     "\<lambda>x::string. x" "''images/IMG_0001.jpg''"]
  by (simp add: plain_element_def sanitize_map index_def Base_def)

text \<open>
  The claim as written fails: with the empty string as state district the destination
  directory has three levels below \<^verbatim>\<open>sorted_images\<close>, not four.
\<close>

theorem mover_four_levels_counterexample:
  "folderPath
     [''country'' \<mapsto> ''US'', ''state'' \<mapsto> ''California'',
      ''state_district'' \<mapsto> [], ''county'' \<mapsto> ''Alameda County'']
     = ''sorted_images/US/California/Alameda_County''
   \<and> levels_below_root (folderPath
     [''country'' \<mapsto> ''US'', ''state'' \<mapsto> ''California'',
      ''state_district'' \<mapsto> [], ''county'' \<mapsto> ''Alameda County'']) \<noteq> 4"
  by (simp add: levels_below_root_def folderPath_def Join_def Clean_def clean_step_def
      sanitize_map index_def)

text \<open>
  Claim C10. The sanitizer leaves the slash of \<^verbatim>\<open>a/b\<close> alone and \<^verbatim>\<open>Join\<close> reads it as a
  separator: with country \<^verbatim>\<open>a/b\<close> the file is moved five levels below
  \<^verbatim>\<open>sorted_images\<close>. An empty field is dropped by \<^verbatim>\<open>Join\<close>: with an empty state
  district the file is moved three levels below \<^verbatim>\<open>sorted_images\<close>.
\<close>

theorem separator_and_empty_fields:
  "sanitize ''a/b'' = ''a/b''
   \<and> folderPath [''country'' \<mapsto> ''a/b'', ''state'' \<mapsto> ''s'',
                  ''state_district'' \<mapsto> ''d'', ''county'' \<mapsto> ''c'']
       = ''sorted_images/a/b/s/d/c''
   \<and> levels_below_root
        (folderPath [''country'' \<mapsto> ''a/b'', ''state'' \<mapsto> ''s'',
                     ''state_district'' \<mapsto> ''d'', ''county'' \<mapsto> ''c'']) = 5
   \<and> trace (snd (moveImage env ''images/x.jpg''
        [''country'' \<mapsto> ''a/b'', ''state'' \<mapsto> ''s'',
         ''state_district'' \<mapsto> ''d'', ''county'' \<mapsto> ''c''] s))
       = trace s @ MkdirAll ''sorted_images/a/b/s/d/c'' #
           (case fst (os_MkdirAll env ''sorted_images/a/b/s/d/c'' (world s)) of
              Some err \<Rightarrow> []
            | None \<Rightarrow> [Rename ''images/x.jpg'' ''sorted_images/a/b/s/d/c/x.jpg''])
   \<and> folderPath [''country'' \<mapsto> ''US'', ''state'' \<mapsto> ''California'',
                  ''state_district'' \<mapsto> [], ''county'' \<mapsto> ''Alameda County'']
       = ''sorted_images/US/California/Alameda_County''
   \<and> levels_below_root
        (folderPath [''country'' \<mapsto> ''US'', ''state'' \<mapsto> ''California'',
                     ''state_district'' \<mapsto> [], ''county'' \<mapsto> ''Alameda County'']) = 3
   \<and> trace (snd (moveImage env ''images/x.jpg''
        [''country'' \<mapsto> ''US'', ''state'' \<mapsto> ''California'',
         ''state_district'' \<mapsto> [], ''county'' \<mapsto> ''Alameda County''] s))
       = trace s @ MkdirAll ''sorted_images/US/California/Alameda_County'' #
           (case fst (os_MkdirAll env ''sorted_images/US/California/Alameda_County'' (world s)) of
              Some err \<Rightarrow> []
            | None \<Rightarrow> [Rename ''images/x.jpg''
                         ''sorted_images/US/California/Alameda_County/x.jpg''])"
proof -
  let ?a = "[''country'' \<mapsto> ''a/b'', ''state'' \<mapsto> ''s'',
             ''state_district'' \<mapsto> ''d'', ''county'' \<mapsto> ''c'']"
  let ?e = "[''country'' \<mapsto> ''US'', ''state'' \<mapsto> ''California'',
             ''state_district'' \<mapsto> [], ''county'' \<mapsto> ''Alameda County'']"
  have fa: "folderPath ?a = ''sorted_images/a/b/s/d/c''"
    by (simp add: folderPath_def Join_def Clean_def clean_step_def sanitize_map index_def)
  have fe: "folderPath ?e = ''sorted_images/US/California/Alameda_County''"
    by (simp add: folderPath_def Join_def Clean_def clean_step_def sanitize_map index_def)
  have na: "newImagePath ''images/x.jpg'' ?a = ''sorted_images/a/b/s/d/c/x.jpg''"
    unfolding newImagePath_def fa by (simp add: Base_def Join_def Clean_def clean_step_def)
  have ne: "newImagePath ''images/x.jpg'' ?e
              = ''sorted_images/US/California/Alameda_County/x.jpg''"
    unfolding newImagePath_def fe by (simp add: Base_def Join_def Clean_def clean_step_def)
  have "sanitize ''a/b'' = ''a/b''"
    by (simp add: sanitize_map)
  moreover have "levels_below_root (folderPath ?a) = 5"
    unfolding fa by (simp add: levels_below_root_def)
  moreover have "levels_below_root (folderPath ?e) = 3"
    unfolding fe by (simp add: levels_below_root_def)
  moreover have "trace (snd (moveImage env ''images/x.jpg'' ?a s))
       = trace s @ MkdirAll ''sorted_images/a/b/s/d/c'' #
           (case fst (os_MkdirAll env ''sorted_images/a/b/s/d/c'' (world s)) of
              Some err \<Rightarrow> []
            | None \<Rightarrow> [Rename ''images/x.jpg'' ''sorted_images/a/b/s/d/c/x.jpg''])"
    unfolding moveImage_trace fa na by (rule refl)
  moreover have "trace (snd (moveImage env ''images/x.jpg'' ?e s))
       = trace s @ MkdirAll ''sorted_images/US/California/Alameda_County'' #
           (case fst (os_MkdirAll env ''sorted_images/US/California/Alameda_County'' (world s)) of
              Some err \<Rightarrow> []
            | None \<Rightarrow> [Rename ''images/x.jpg''
                         ''sorted_images/US/California/Alameda_County/x.jpg''])"
    unfolding moveImage_trace fe ne by (rule refl)
  ultimately show ?thesis
    using fa fe by blast
qed

subsection \<open>The reverse-geocoding client\<close>

lemma getLocationDetails_state:
  "snd (getLocationDetails env lat lon s) =
     emit (Get (reverse_url (fmt_f env) lat lon))
       (s\<lparr>world := snd (http_Get env (reverse_url (fmt_f env) lat lon) (world s))\<rparr>)"
  by (simp add: getLocationDetails_def Let_def
      split: prod.splits sum.splits option.splits json.splits)

lemma getLocationDetails_transport:
  "fst (http_Get env (reverse_url (fmt_f env) lat lon) (world s)) = Inl err \<Longrightarrow>
     fst (getLocationDetails env lat lon s) = Inl err"
  by (auto simp: getLocationDetails_def Let_def split: prod.splits)

lemma getLocationDetails_status:
  "fst (http_Get env (reverse_url (fmt_f env) lat lon) (world s)) = Inr resp \<Longrightarrow>
   StatusCode resp \<noteq> 200 \<Longrightarrow>
     fst (getLocationDetails env lat lon s) = Inl (''API error: '' @ Sprintf_d (StatusCode resp))"
  by (auto simp: getLocationDetails_def Let_def split: prod.splits)

lemma getLocationDetails_read:
  "fst (http_Get env (reverse_url (fmt_f env) lat lon) (world s)) = Inr resp \<Longrightarrow>
   StatusCode resp = 200 \<Longrightarrow> Body resp = Inl err \<Longrightarrow>
     fst (getLocationDetails env lat lon s) = Inl err"
  by (auto simp: getLocationDetails_def Let_def split: prod.splits)

lemma getLocationDetails_decode:
  "fst (http_Get env (reverse_url (fmt_f env) lat lon) (world s)) = Inr resp \<Longrightarrow>
   StatusCode resp = 200 \<Longrightarrow> Body resp = Inr body \<Longrightarrow>
   json_Unmarshal env body = Inl err \<Longrightarrow>
     fst (getLocationDetails env lat lon s) = Inl err"
  by (auto simp: getLocationDetails_def Let_def split: prod.splits)

lemma getLocationDetails_address:
  "fst (http_Get env (reverse_url (fmt_f env) lat lon) (world s)) = Inr resp \<Longrightarrow>
   StatusCode resp = 200 \<Longrightarrow> Body resp = Inr body \<Longrightarrow>
   json_Unmarshal env body = Inr data \<Longrightarrow>
   \<not> (\<exists>address. map_of data ''address'' = Some (JObject address)) \<Longrightarrow>
     fst (getLocationDetails env lat lon s) = Inl ''invalid address data''"
  by (auto simp: getLocationDetails_def Let_def split: prod.splits option.splits json.splits)

lemma getLocationDetails_place:
  "fst (http_Get env (reverse_url (fmt_f env) lat lon) (world s)) = Inr resp \<Longrightarrow>
   StatusCode resp = 200 \<Longrightarrow> Body resp = Inr body \<Longrightarrow>
   json_Unmarshal env body = Inr data \<Longrightarrow>
   map_of data ''address'' = Some (JObject address) \<Longrightarrow>
     fst (getLocationDetails env lat lon s) =
       Inr [''country'' \<mapsto> getString (fmt_g env) address ''country'',
            ''state'' \<mapsto> getString (fmt_g env) address ''state'',
            ''state_district'' \<mapsto> getString (fmt_g env) address ''state_district'',
            ''county'' \<mapsto> getString (fmt_g env) address ''county'']"
  by (auto simp: getLocationDetails_def Let_def split: prod.splits)

lemma getLocationDetails_Inr:
  assumes "fst (getLocationDetails env lat lon s) = Inr place"
  shows "\<exists>resp body data address.
           fst (http_Get env (reverse_url (fmt_f env) lat lon) (world s)) = Inr resp
           \<and> StatusCode resp = 200 \<and> Body resp = Inr body
           \<and> json_Unmarshal env body = Inr data
           \<and> map_of data ''address'' = Some (JObject address)
           \<and> place = [''country'' \<mapsto> getString (fmt_g env) address ''country'',
                ''state'' \<mapsto> getString (fmt_g env) address ''state'',
                ''state_district'' \<mapsto> getString (fmt_g env) address ''state_district'',
                ''county'' \<mapsto> getString (fmt_g env) address ''county'']"
  using assms
  by (auto simp: getLocationDetails_def Let_def
      split: prod.splits sum.splits option.splits json.splits if_splits)

lemma decimal_small: "n < 10 \<Longrightarrow> decimal n = [digit n]"
  by (subst decimal.simps) simp

lemma decimal_large: "\<not> n < 10 \<Longrightarrow> decimal n = decimal (n div 10) @ [digit (n mod 10)]"
  by (subst decimal.simps) simp

lemma decimal_not_Nil: "decimal n \<noteq> []"
  by (subst decimal.simps) simp

lemma Sprintf_d_not_Nil: "Sprintf_d i \<noteq> []"
  by (simp add: Sprintf_d_def decimal_not_Nil)

lemmas demo_simps =
  demo_env_def demo_start_def demo_address_def demo_files_def reverse_url_def
  Sprintf_d_def decimal_small decimal_large digit_def

lemma Sprintf_v_empty:
  "\<forall>x. g x \<noteq> [] \<Longrightarrow> Sprintf_v g v = [] \<longleftrightarrow> v = JString []"
  by (cases v) auto

lemma getString_empty:
  "\<forall>x. g x \<noteq> [] \<Longrightarrow> getString g address key = [] \<longleftrightarrow> map_of address key = Some (JString [])"
  by (auto simp: getString_def Sprintf_v_empty split: option.splits)

text \<open>
  Claim C2. When the request succeeds with status 200, the body is read and decoded, and
  the \<^verbatim>\<open>address\<close> member of the decoded object is an object, the client returns a place
  and no error. For each of the four keys the field is the \<^verbatim>\<open>%v\<close> text of the value when
  the key is present (the string itself for a string) and \<^verbatim>\<open>Unknown\<close> when it is absent;
  with all four keys absent the place is \<^verbatim>\<open>Unknown\<close> four times.
\<close>

theorem geocode_fields:
  assumes "fst (http_Get env (reverse_url (fmt_f env) lat lon) (world s)) = Inr resp"
    and "StatusCode resp = 200"
    and "Body resp = Inr body"
    and "json_Unmarshal env body = Inr data"
    and "map_of data ''address'' = Some (JObject address)"
  shows "\<exists>place. fst (getLocationDetails env lat lon s) = Inr place
    \<and> (\<forall>key \<in> {''country'', ''state'', ''state_district'', ''county''}.
          place key =
            Some (case map_of address key of
                    Some value \<Rightarrow> Sprintf_v (fmt_g env) value
                  | None \<Rightarrow> ''Unknown'')
          \<and> (\<forall>text. map_of address key = Some (JString text) \<longrightarrow> place key = Some text)
          \<and> (map_of address key = None \<longrightarrow> place key = Some ''Unknown''))
    \<and> (map_of address ''country'' = None \<and> map_of address ''state'' = None
        \<and> map_of address ''state_district'' = None \<and> map_of address ''county'' = None \<longrightarrow>
        place = [''country'' \<mapsto> ''Unknown'', ''state'' \<mapsto> ''Unknown'',
                 ''state_district'' \<mapsto> ''Unknown'', ''county'' \<mapsto> ''Unknown''])"
  unfolding getLocationDetails_place [OF assms]
  by (simp add: getString_def)

theorem geocode_fields_witness:
  "(\<exists>place. fst (getLocationDetails demo_env 38 (- 122) demo_start) = Inr place
      \<and> place ''country'' = Some ''United States''
      \<and> place ''state'' = Some ''California''
      \<and> place ''state_district'' = Some ''Unknown''
      \<and> place ''county'' = Some ''San Francisco County'')
   \<and> (\<exists>place. fst (getLocationDetails
                     (demo_env\<lparr>json_Unmarshal := \<lambda>body. Inr [(''address'', JObject [])]\<rparr>)
                     0 0 demo_start) = Inr place
      \<and> place = [''country'' \<mapsto> ''Unknown'', ''state'' \<mapsto> ''Unknown'',
                 ''state_district'' \<mapsto> ''Unknown'', ''county'' \<mapsto> ''Unknown''])"
  using geocode_fields [where env = demo_env and lat = 38 and lon = "- 122"
      and s = demo_start and resp = "\<lparr>StatusCode = 200, Body = Inr ''body''\<rparr>"
      and body = "''body''" and data = "[(''address'', JObject demo_address)]"
      and address = demo_address]
    geocode_fields [where env = "demo_env\<lparr>json_Unmarshal := \<lambda>body. Inr [(''address'', JObject [])]\<rparr>"
      and lat = 0 and lon = 0
      and s = demo_start and resp = "\<lparr>StatusCode = 200, Body = Inr ''body''\<rparr>"
      and body = "''body''" and data = "[(''address'', JObject [])]"
      and address = "[]"]
  by (simp add: demo_simps demo_address_def)

text \<open>
  Claim C6. The client returns an error and no place in these cases, and a place in every
  other: the request fails (the error is passed on); the status code is not 200 (the
  message is \<^verbatim>\<open>API error:\<close> followed by the code); reading the body fails or the body does
  not decode (the error is passed on); the decoded object has no \<^verbatim>\<open>address\<close> member that
  is an object (the message is \<^verbatim>\<open>invalid address data\<close>). In every case exactly one
  request has been made.
\<close>

theorem geocode_failures:
  "(\<forall>err. fst (http_Get env (reverse_url (fmt_f env) lat lon) (world s)) = Inl err \<longrightarrow>
      fst (getLocationDetails env lat lon s) = Inl err)
   \<and> (\<forall>resp. fst (http_Get env (reverse_url (fmt_f env) lat lon) (world s)) = Inr resp \<longrightarrow>
        (StatusCode resp \<noteq> 200 \<longrightarrow>
           fst (getLocationDetails env lat lon s) =
             Inl (''API error: '' @ Sprintf_d (StatusCode resp)))
        \<and> (StatusCode resp = 200 \<longrightarrow>
             (\<forall>err. Body resp = Inl err \<longrightarrow> fst (getLocationDetails env lat lon s) = Inl err)
             \<and> (\<forall>body. Body resp = Inr body \<longrightarrow>
                  (\<forall>err. json_Unmarshal env body = Inl err \<longrightarrow>
                     fst (getLocationDetails env lat lon s) = Inl err)
                  \<and> (\<forall>data. json_Unmarshal env body = Inr data \<longrightarrow>
                       (if \<exists>address. map_of data ''address'' = Some (JObject address)
                        then \<exists>place. fst (getLocationDetails env lat lon s) = Inr place
                        else fst (getLocationDetails env lat lon s)
                               = Inl ''invalid address data'')))))
   \<and> trace (snd (getLocationDetails env lat lon s))
       = trace s @ [Get (reverse_url (fmt_f env) lat lon)]"
proof -
  have "trace (snd (getLocationDetails env lat lon s))
       = trace s @ [Get (reverse_url (fmt_f env) lat lon)]"
    by (simp add: getLocationDetails_state emit_def)
  moreover have "\<exists>place. fst (getLocationDetails env lat lon s) = Inr place"
    if "fst (http_Get env (reverse_url (fmt_f env) lat lon) (world s)) = Inr resp"
      "StatusCode resp = 200" "Body resp = Inr body" "json_Unmarshal env body = Inr data"
      "map_of data ''address'' = Some (JObject address)"
    for resp body data address
    using getLocationDetails_place [OF that] by simp
  ultimately show ?thesis
    using getLocationDetails_transport [of env lat lon s]
      getLocationDetails_status [of env lat lon s]
      getLocationDetails_read [of env lat lon s]
      getLocationDetails_decode [of env lat lon s]
      getLocationDetails_address [of env lat lon s]
    by (intro conjI allI impI) (auto split: if_splits)
qed

theorem geocode_failures_witness:
  "fst (getLocationDetails (demo_env\<lparr>http_Get := \<lambda>url w. (Inl ''no route to host'', w)\<rparr>)
         1 2 demo_start) = Inl ''no route to host''
   \<and> fst (getLocationDetails demo_env 1 2 demo_start)
       = Inl ''API error: 503''
   \<and> fst (getLocationDetails
            (demo_env\<lparr>http_Get :=
               \<lambda>url w. (Inr \<lparr>StatusCode = 200, Body = Inl ''unexpected EOF''\<rparr>, w)\<rparr>)
            1 2 demo_start) = Inl ''unexpected EOF''
   \<and> fst (getLocationDetails
            (demo_env\<lparr>json_Unmarshal := \<lambda>body. Inl ''unexpected end of JSON input''\<rparr>)
            3 4 demo_start) = Inl ''unexpected end of JSON input''
   \<and> fst (getLocationDetails
            (demo_env\<lparr>json_Unmarshal := \<lambda>body. Inr [(''address'', JString ''nowhere'')]\<rparr>)
            3 4 demo_start) = Inl ''invalid address data''
   \<and> fst (getLocationDetails
            (demo_env\<lparr>json_Unmarshal := \<lambda>body. Inr []\<rparr>)
            3 4 demo_start) = Inl ''invalid address data''
   \<and> (\<exists>place. fst (getLocationDetails demo_env 3 4 demo_start) = Inr place)
   \<and> trace (snd (getLocationDetails demo_env 1 2 demo_start))
       = [Get ''https://nominatim.openstreetmap.org/reverse?format=json&lat=1.000000&lon=2.000000&zoom=10'']"
proof -
  have a: "fst (getLocationDetails
                 (demo_env\<lparr>http_Get := \<lambda>url w. (Inl ''no route to host'', w)\<rparr>)
                 1 2 demo_start) = Inl ''no route to host''"
    using geocode_failures
      [of "demo_env\<lparr>http_Get := \<lambda>url w. (Inl ''no route to host'', w)\<rparr>"
          1 2 demo_start]
    by (simp add: demo_simps)
  have b: "fst (getLocationDetails demo_env 1 2 demo_start)
             = Inl ''API error: 503''
           \<and> trace (snd (getLocationDetails demo_env 1 2 demo_start))
       = [Get ''https://nominatim.openstreetmap.org/reverse?format=json&lat=1.000000&lon=2.000000&zoom=10'']"
    using geocode_failures [of demo_env 1 2 demo_start]
    by (simp add: demo_simps)
  have c: "fst (getLocationDetails
            (demo_env\<lparr>http_Get :=
               \<lambda>url w. (Inr \<lparr>StatusCode = 200, Body = Inl ''unexpected EOF''\<rparr>, w)\<rparr>)
            1 2 demo_start) = Inl ''unexpected EOF''"
    using geocode_failures
      [of "demo_env\<lparr>http_Get :=
               \<lambda>url w. (Inr \<lparr>StatusCode = 200, Body = Inl ''unexpected EOF''\<rparr>, w)\<rparr>"
          1 2 demo_start]
    by (simp add: demo_simps)
  have d: "fst (getLocationDetails
            (demo_env\<lparr>json_Unmarshal := \<lambda>body. Inl ''unexpected end of JSON input''\<rparr>)
            3 4 demo_start) = Inl ''unexpected end of JSON input''"
    using geocode_failures
      [of "demo_env\<lparr>json_Unmarshal := \<lambda>body. Inl ''unexpected end of JSON input''\<rparr>"
          3 4 demo_start]
    by (simp add: demo_simps)
  have e: "fst (getLocationDetails
            (demo_env\<lparr>json_Unmarshal := \<lambda>body. Inr [(''address'', JString ''nowhere'')]\<rparr>)
            3 4 demo_start) = Inl ''invalid address data''"
    using geocode_failures
      [of "demo_env\<lparr>json_Unmarshal := \<lambda>body. Inr [(''address'', JString ''nowhere'')]\<rparr>"
          3 4 demo_start]
    by (simp add: demo_simps)
  have f: "fst (getLocationDetails
            (demo_env\<lparr>json_Unmarshal := \<lambda>body. Inr []\<rparr>)
            3 4 demo_start) = Inl ''invalid address data''"
    using geocode_failures
      [of "demo_env\<lparr>json_Unmarshal := \<lambda>body. Inr []\<rparr>"
          3 4 demo_start]
    by (simp add: demo_simps)
  have g: "\<exists>place. fst (getLocationDetails demo_env 3 4 demo_start) = Inr place"
    using geocode_failures [of demo_env 3 4 demo_start]
    by (simp add: demo_simps)
  from a b c d e f g show ?thesis
    by blast
qed

text \<open>
  Claim C7, amended. A place the client returns has exactly the four keys country, state,
  state_district and county. Given that a number never prints as the empty string, the
  value of a key is the empty string exactly when the address object gives that key the
  empty string; so it is non-empty for an absent key and for every other value.
\<close>

theorem place_completeness:
  assumes "fst (getLocationDetails env lat lon s) = Inr place"
    and "\<forall>x. fmt_g env x \<noteq> []"
  shows "dom place = {''country'', ''state'', ''state_district'', ''county''}
    \<and> (\<exists>resp body data address.
          fst (http_Get env (reverse_url (fmt_f env) lat lon) (world s)) = Inr resp
          \<and> Body resp = Inr body \<and> json_Unmarshal env body = Inr data
          \<and> map_of data ''address'' = Some (JObject address)
          \<and> (\<forall>key \<in> {''country'', ''state'', ''state_district'', ''county''}.
                place key = Some [] \<longleftrightarrow> map_of address key = Some (JString [])))"
proof -
  from getLocationDetails_Inr [OF assms(1)] obtain resp body data address where
    r: "fst (http_Get env (reverse_url (fmt_f env) lat lon) (world s)) = Inr resp"
      "Body resp = Inr body" "json_Unmarshal env body = Inr data"
      "map_of data ''address'' = Some (JObject address)"
    and p: "place = [''country'' \<mapsto> getString (fmt_g env) address ''country'',
                ''state'' \<mapsto> getString (fmt_g env) address ''state'',
                ''state_district'' \<mapsto> getString (fmt_g env) address ''state_district'',
                ''county'' \<mapsto> getString (fmt_g env) address ''county'']"
    by blast
  have d: "dom place = {''country'', ''state'', ''state_district'', ''county''}"
    unfolding p by auto
  have "\<forall>key \<in> {''country'', ''state'', ''state_district'', ''county''}.
          place key = Some [] \<longleftrightarrow> map_of address key = Some (JString [])"
    unfolding p using getString_empty [OF assms(2), of address] by simp
  with r d show ?thesis
    by blast
qed

theorem place_completeness_witness:
  "fst (getLocationDetails demo_env 38 (- 122) demo_start)
     = Inr [''country'' \<mapsto> ''United States'', ''state'' \<mapsto> ''California'',
            ''state_district'' \<mapsto> ''Unknown'', ''county'' \<mapsto> ''San Francisco County'']
   \<and> (\<forall>x. fmt_g demo_env x \<noteq> [])
   \<and> dom [''country'' \<mapsto> ''United States'', ''state'' \<mapsto> ''California'',
          ''state_district'' \<mapsto> ''Unknown'', ''county'' \<mapsto> ''San Francisco County'']
       = {''country'', ''state'', ''state_district'', ''county''}"
proof -
  have r: "fst (getLocationDetails demo_env 38 (- 122) demo_start)
     = Inr [''country'' \<mapsto> ''United States'', ''state'' \<mapsto> ''California'',
            ''state_district'' \<mapsto> ''Unknown'', ''county'' \<mapsto> ''San Francisco County'']"
    by (simp add: getLocationDetails_def getString_def demo_simps)
  have g: "\<forall>x. fmt_g demo_env x \<noteq> []"
    by (simp add: demo_env_def Sprintf_d_not_Nil)
  from place_completeness [OF r g] r g show ?thesis
    by blast
qed

text \<open>
  The claim as written fails: for the address \<^verbatim>\<open>{"country": ""}\<close> the client succeeds
  and the country of the place is the empty string.
\<close>

theorem place_completeness_counterexample:
  "fst (getLocationDetails
          (demo_env\<lparr>json_Unmarshal :=
             \<lambda>body. Inr [(''address'', JObject [(''country'', JString [])])]\<rparr>)
          0 0 demo_start)
     = Inr [''country'' \<mapsto> [], ''state'' \<mapsto> ''Unknown'',
            ''state_district'' \<mapsto> ''Unknown'', ''county'' \<mapsto> ''Unknown'']
   \<and> getString Sprintf_d [(''country'', JString [])] ''country'' = []"
  by (simp add: getLocationDetails_def demo_simps getString_def)

text \<open>
  Claim C8, amended. For each of the four keys, the client gives the field the text
  \<^verbatim>\<open>Unknown\<close> when the key is missing from the address object; when the address object
  holds \<^verbatim>\<open>null\<close> for the key, the key is found, and the field is \<^verbatim>\<open><nil>\<close>, the \<^verbatim>\<open>%v\<close>
  text of \<^verbatim>\<open>nil\<close>.
\<close>

theorem unknown_sentinel:
  assumes "fst (http_Get env (reverse_url (fmt_f env) lat lon) (world s)) = Inr resp"
    and "StatusCode resp = 200"
    and "Body resp = Inr body"
    and "json_Unmarshal env body = Inr data"
    and "map_of data ''address'' = Some (JObject address)"
    and "key \<in> {''country'', ''state'', ''state_district'', ''county''}"
  shows "\<exists>place. fst (getLocationDetails env lat lon s) = Inr place
    \<and> (map_of address key = None \<longrightarrow>
         getString (fmt_g env) address key = ''Unknown'' \<and> place key = Some ''Unknown'')
    \<and> (map_of address key = Some JNull \<longrightarrow>
         getString (fmt_g env) address key = ''<nil>'' \<and> place key = Some ''<nil>'')"
  unfolding getLocationDetails_place [OF assms(1-5)]
  using assms(6) by (auto simp: getString_def)

theorem unknown_sentinel_witness:
  "(\<exists>place. fst (getLocationDetails demo_env 38 (- 122) demo_start) = Inr place
      \<and> place ''state_district'' = Some ''Unknown'')
   \<and> (\<exists>place. fst (getLocationDetails
                     (demo_env\<lparr>json_Unmarshal :=
                        \<lambda>body. Inr [(''address'', JObject [(''state'', JNull)])]\<rparr>)
                     0 0 demo_start) = Inr place
      \<and> place ''state'' = Some ''<nil>'')"
  using unknown_sentinel [where env = demo_env and lat = 38 and lon = "- 122"
      and s = demo_start and resp = "\<lparr>StatusCode = 200, Body = Inr ''body''\<rparr>"
      and body = "''body''" and data = "[(''address'', JObject demo_address)]"
      and address = demo_address and key = "''state_district''"]
    unknown_sentinel [where env = "demo_env\<lparr>json_Unmarshal :=
                        \<lambda>body. Inr [(''address'', JObject [(''state'', JNull)])]\<rparr>"
      and lat = 0 and lon = 0
      and s = demo_start and resp = "\<lparr>StatusCode = 200, Body = Inr ''body''\<rparr>"
      and body = "''body''" and data = "[(''address'', JObject [(''state'', JNull)])]"
      and address = "[(''state'', JNull)]" and key = "''state''"]
  by (simp add: demo_simps getString_def)

text \<open>
  The claim as written fails: for the address \<^verbatim>\<open>{"state": null}\<close> the state of the place
  is \<^verbatim>\<open><nil>\<close>, not \<^verbatim>\<open>Unknown\<close>.
\<close>

theorem unknown_sentinel_counterexample:
  "fst (getLocationDetails
          (demo_env\<lparr>json_Unmarshal := \<lambda>body. Inr [(''address'', JObject [(''state'', JNull)])]\<rparr>)
          0 0 demo_start)
     = Inr [''country'' \<mapsto> ''Unknown'', ''state'' \<mapsto> ''<nil>'',
            ''state_district'' \<mapsto> ''Unknown'', ''county'' \<mapsto> ''Unknown'']
   \<and> getString Sprintf_d [(''state'', JNull)] ''state'' \<noteq> ''Unknown''"
  by (simp add: getLocationDetails_def demo_simps getString_def)

subsection \<open>The driver\<close>

lemma getGeoInfo_state:
  "snd (getGeoInfo env p s) = emit (Open p) (s\<lparr>world := snd (os_Open env p (world s))\<rparr>)"
  by (simp add: getGeoInfo_def Let_def split: prod.splits sum.splits)

lemma getGeoInfo_trace: "trace (snd (getGeoInfo env p s)) = trace s @ [Open p]"
  by (simp add: getGeoInfo_state emit_def)

lemma getLocationDetails_trace:
  "trace (snd (getLocationDetails env lat lon s)) = trace s @ [Get (reverse_url (fmt_f env) lat lon)]"
  by (simp add: getLocationDetails_state emit_def)

lemma moveImage_world:
  "world (snd (moveImage env p place (Printf text s))) = world (snd (moveImage env p place s))"
  by (simp add: moveImage_def Printf_def emit_def Let_def split: prod.splits option.splits)

lemma moveImage_fst_Printf:
  "fst (moveImage env p place (Printf text s)) = fst (moveImage env p place s)"
  by (simp add: moveImage_def Printf_def emit_def Let_def split: prod.splits option.splits)

lemma process_entry_skip: "\<not> candidate file \<Longrightarrow> process_entry env directory file s = s"
  by (auto simp: process_entry_def candidate_def)

lemma process_entry_exif_fail:
  assumes "candidate file"
    and "fst (getGeoInfo env (Join [directory, Name file]) s) = Inl err"
  shows "process_entry env directory file s =
     Printf (''No GPS data found for '' @ Name file @ newline)
       (snd (getGeoInfo env (Join [directory, Name file]) s))"
  using assms by (auto simp: process_entry_def candidate_def Let_def split: prod.splits)

lemma process_entry_geocode_fail:
  assumes "candidate file"
    and "fst (getGeoInfo env (Join [directory, Name file]) s) = Inr (lat, lon)"
    and "fst (getLocationDetails env lat lon
               (snd (getGeoInfo env (Join [directory, Name file]) s))) = Inl err"
  shows "process_entry env directory file s =
     Printf (''Error getting location for '' @ Name file @ '': '' @ err @ newline)
       (snd (getLocationDetails env lat lon
               (snd (getGeoInfo env (Join [directory, Name file]) s))))"
  using assms by (auto simp: process_entry_def candidate_def Let_def split: prod.splits)

lemma process_entry_move:
  assumes "candidate file"
    and "fst (getGeoInfo env (Join [directory, Name file]) s) = Inr (lat, lon)"
    and "fst (getLocationDetails env lat lon
               (snd (getGeoInfo env (Join [directory, Name file]) s))) = Inr place"
  shows "process_entry env directory file s =
     (let moved = moveImage env (Join [directory, Name file]) place
            (Printf (''Moving '' @ Name file @ '' to ''
                     @ index place ''country'' @ ''/''
                     @ index place ''state'' @ ''/''
                     @ index place ''state_district'' @ ''/''
                     @ index place ''county'' @ newline)
               (snd (getLocationDetails env lat lon
                  (snd (getGeoInfo env (Join [directory, Name file]) s)))))
      in case fst moved of
           Some err \<Rightarrow> Printf (''Error moving file: '' @ err @ newline) (snd moved)
         | None \<Rightarrow> snd moved)"
  using assms
  by (auto simp: process_entry_def candidate_def Let_def split: prod.splits option.splits)

lemma opened_append: "opened (a @ b) = opened a @ opened b"
  by (induction a rule: opened.induct) simp_all

lemma process_entry_opened:
  "opened (trace (process_entry env directory file s)) =
     opened (trace s) @ (if candidate file then [Join [directory, Name file]] else [])"
proof (cases "candidate file")
  case False
  then show ?thesis by (simp add: process_entry_skip)
next
  case True
  show ?thesis
  proof (cases "fst (getGeoInfo env (Join [directory, Name file]) s)")
    case (Inl err)
    show ?thesis
      unfolding process_entry_exif_fail [OF True Inl]
      by (simp add: True Printf_def emit_def getGeoInfo_trace opened_append)
  next
    case (Inr latlon)
    obtain lat lon where ll: "latlon = (lat, lon)"
      by (cases latlon)
    note geo = Inr [unfolded ll]
    show ?thesis
    proof (cases "fst (getLocationDetails env lat lon
               (snd (getGeoInfo env (Join [directory, Name file]) s)))")
      case (Inl err)
      show ?thesis
        unfolding process_entry_geocode_fail [OF True geo Inl]
        by (simp add: True Printf_def emit_def getGeoInfo_trace getLocationDetails_trace
            opened_append)
    next
      case (Inr place)
      show ?thesis
        unfolding process_entry_move [OF True geo Inr]
        by (simp add: True Let_def Printf_def emit_def moveImage_trace getGeoInfo_trace
            getLocationDetails_trace opened_append split: option.splits)
    qed
  qed
qed

lemma range_files_append:
  "range_files env directory (xs @ ys) s =
     range_files env directory ys (range_files env directory xs s)"
  by (induction xs arbitrary: s) simp_all

lemma range_files_opened:
  "opened (trace (range_files env directory files s)) =
     opened (trace s) @ map (\<lambda>file. Join [directory, Name file]) (filter candidate files)"
  by (induction files arbitrary: s) (simp_all add: process_entry_opened)

lemma process_entry_outcome:
  assumes "candidate file"
  shows "(let p = Join [directory, Name file]; geo = getGeoInfo env p s in
      case fst geo of
        Inl err \<Rightarrow>
          trace (process_entry env directory file s)
            = trace s @ [Open p, Stdout (''No GPS data found for '' @ Name file @ newline)]
          \<and> world (process_entry env directory file s) = world (snd geo)
      | Inr (lat, lon) \<Rightarrow>
          (let loc = getLocationDetails env lat lon (snd geo);
               url = reverse_url (fmt_f env) lat lon
           in case fst loc of
                Inl err \<Rightarrow>
                  trace (process_entry env directory file s)
                    = trace s @ [Open p, Get url,
                        Stdout (''Error getting location for '' @ Name file @ '': '' @ err
                                @ newline)]
                  \<and> world (process_entry env directory file s) = world (snd loc)
              | Inr place \<Rightarrow>
                  (let moving = ''Moving '' @ Name file @ '' to ''
                         @ index place ''country'' @ ''/'' @ index place ''state'' @ ''/''
                         @ index place ''state_district'' @ ''/'' @ index place ''county''
                         @ newline;
                       moved = moveImage env p place (Printf moving (snd loc))
                   in trace (process_entry env directory file s)
                        = trace s @ [Open p, Get url, Stdout moving, MkdirAll (folderPath place)]
                          @ (case fst (os_MkdirAll env (folderPath place) (world (snd loc))) of
                               Some err \<Rightarrow> []
                             | None \<Rightarrow> [Rename p (newImagePath p place)])
                          @ (case fst moved of
                               Some err \<Rightarrow> [Stdout (''Error moving file: '' @ err @ newline)]
                             | None \<Rightarrow> [])
                      \<and> world (process_entry env directory file s) = world (snd moved))))"
proof (cases "fst (getGeoInfo env (Join [directory, Name file]) s)")
  case (Inl err)
  show ?thesis
    unfolding Let_def process_entry_exif_fail [OF assms Inl]
    by (simp add: Inl Printf_def emit_def getGeoInfo_trace)
next
  case (Inr latlon)
  obtain lat lon where ll: "latlon = (lat, lon)"
    by (cases latlon)
  note geo = Inr [unfolded ll]
  show ?thesis
  proof (cases "fst (getLocationDetails env lat lon
               (snd (getGeoInfo env (Join [directory, Name file]) s)))")
    case (Inl err)
    show ?thesis
      unfolding Let_def process_entry_geocode_fail [OF assms geo Inl]
      by (simp add: geo Inl Printf_def emit_def getGeoInfo_trace getLocationDetails_trace)
  next
    case (Inr place)
    show ?thesis
      unfolding process_entry_move [OF assms geo Inr]
      by (simp add: geo Inr Let_def Printf_def emit_def moveImage_trace getGeoInfo_trace
          getLocationDetails_trace split: option.splits)
  qed
qed

text \<open>
  Claim C4. For a candidate file the driver does one of the following, and nothing else.
  When EXIF extraction fails it has opened the file and written \<^verbatim>\<open>No GPS data found for\<close>
  and the name: no request, no directory made, no rename. When geocoding fails it has made
  the one request and written \<^verbatim>\<open>Error getting location for\<close>, the name, a colon and the
  error: no directory made, no rename. Otherwise it writes \<^verbatim>\<open>Moving\<close>, the name and the
  four fields of the place as the client returned them, then calls the mover, and writes
  \<^verbatim>\<open>Error moving file:\<close> and the error when the mover fails. Whatever the outcome, the loop
  goes on with the next entry from the state the entry left: every candidate of the
  listing is opened, once, in listing order.
\<close>

theorem driver_outcomes:
  "(candidate file \<longrightarrow>
     (let p = Join [directory, Name file]; geo = getGeoInfo env p s in
         case fst geo of
           Inl err \<Rightarrow>
             trace (process_entry env directory file s)
               = trace s @ [Open p, Stdout (''No GPS data found for '' @ Name file @ newline)]
             \<and> world (process_entry env directory file s) = world (snd geo)
         | Inr (lat, lon) \<Rightarrow>
             (let loc = getLocationDetails env lat lon (snd geo);
                  url = reverse_url (fmt_f env) lat lon
              in case fst loc of
                   Inl err \<Rightarrow>
                     trace (process_entry env directory file s)
                       = trace s @ [Open p, Get url,
                           Stdout (''Error getting location for '' @ Name file @ '': '' @ err
                                   @ newline)]
                     \<and> world (process_entry env directory file s) = world (snd loc)
                 | Inr place \<Rightarrow>
                     (let moving = ''Moving '' @ Name file @ '' to ''
                            @ index place ''country'' @ ''/'' @ index place ''state'' @ ''/''
                            @ index place ''state_district'' @ ''/'' @ index place ''county''
                            @ newline;
                          moved = moveImage env p place (Printf moving (snd loc))
                      in trace (process_entry env directory file s)
                           = trace s @ [Open p, Get url, Stdout moving, MkdirAll (folderPath place)]
                             @ (case fst (os_MkdirAll env (folderPath place) (world (snd loc))) of
                                  Some err \<Rightarrow> []
                                | None \<Rightarrow> [Rename p (newImagePath p place)])
                             @ (case fst moved of
                                  Some err \<Rightarrow> [Stdout (''Error moving file: '' @ err @ newline)]
                                | None \<Rightarrow> [])
                         \<and> world (process_entry env directory file s) = world (snd moved)))))
   \<and> range_files env directory (file # files) s
       = range_files env directory files (process_entry env directory file s)
   \<and> range_files env directory (before @ after) s
       = range_files env directory after (range_files env directory before s)
   \<and> opened (trace (range_files env directory files s))
       = opened (trace s) @ map (\<lambda>file. Join [directory, Name file]) (filter candidate files)"
  using process_entry_outcome [of "file" directory env s]
    range_files_append [of env directory before after s]
    range_files_opened [of env directory files s]
  by simp

lemmas run_simps =
  getGeoInfo_def getLocationDetails_def getString_def moveImage_def folderPath_def
  newImagePath_def Join_def Clean_def clean_step_def Base_def sanitize_map index_def
  HasSuffix_def candidate_def emit_def Printf_def Let_def

theorem driver_outcomes_witness:
  "trace (process_entry demo_env ''images'' \<lparr>Name = ''nogps.png'', IsDir = False\<rparr> demo_start)
     = [Open ''images/nogps.png'', Stdout (''No GPS data found for nogps.png'' @ newline)]
   \<and> trace (process_entry demo_env ''images'' \<lparr>Name = ''broken.jpg'', IsDir = False\<rparr> demo_start)
     = [Open ''images/broken.jpg'',
        Get ''https://nominatim.openstreetmap.org/reverse?format=json&lat=1.000000&lon=2.000000&zoom=10'',
        Stdout (''Error getting location for broken.jpg: API error: 503'' @ newline)]
   \<and> trace (process_entry demo_env ''images'' \<lparr>Name = ''trip.jpg'', IsDir = False\<rparr> demo_start)
     = [Open ''images/trip.jpg'',
        Get ''https://nominatim.openstreetmap.org/reverse?format=json&lat=38.000000&lon=-122.000000&zoom=10'',
        Stdout (''Moving trip.jpg to United States/California/Unknown/San Francisco County''
                @ newline),
        MkdirAll ''sorted_images/United_States/California/Unknown/San_Francisco_County'',
        Rename ''images/trip.jpg''
          ''sorted_images/United_States/California/Unknown/San_Francisco_County/trip.jpg'']
   \<and> trace (process_entry (demo_env\<lparr>os_Rename := \<lambda>old new w. (Some ''permission denied'', w)\<rparr>)
              ''images'' \<lparr>Name = ''trip.jpg'', IsDir = False\<rparr> demo_start)
     = [Open ''images/trip.jpg'',
        Get ''https://nominatim.openstreetmap.org/reverse?format=json&lat=38.000000&lon=-122.000000&zoom=10'',
        Stdout (''Moving trip.jpg to United States/California/Unknown/San Francisco County''
                @ newline),
        MkdirAll ''sorted_images/United_States/California/Unknown/San_Francisco_County'',
        Rename ''images/trip.jpg''
          ''sorted_images/United_States/California/Unknown/San_Francisco_County/trip.jpg'',
        Stdout (''Error moving file: permission denied'' @ newline)]
   \<and> opened (trace (range_files demo_env ''images'' demo_files demo_start))
     = [''images/nogps.png'', ''images/broken.jpg'', ''images/trip.jpg'']"
proof -
  have a: "trace (process_entry demo_env ''images'' \<lparr>Name = ''nogps.png'', IsDir = False\<rparr> demo_start)
     = [Open ''images/nogps.png'', Stdout (''No GPS data found for nogps.png'' @ newline)]"
    using driver_outcomes [of "\<lparr>Name = ''nogps.png'', IsDir = False\<rparr>" "''images''" demo_env
        demo_start]
    by (simp add: run_simps demo_simps)
  have b: "trace (process_entry demo_env ''images'' \<lparr>Name = ''broken.jpg'', IsDir = False\<rparr> demo_start)
     = [Open ''images/broken.jpg'',
        Get ''https://nominatim.openstreetmap.org/reverse?format=json&lat=1.000000&lon=2.000000&zoom=10'',
        Stdout (''Error getting location for broken.jpg: API error: 503'' @ newline)]"
    using driver_outcomes [of "\<lparr>Name = ''broken.jpg'', IsDir = False\<rparr>" "''images''" demo_env
        demo_start]
    by (simp add: run_simps demo_simps)
  have c: "trace (process_entry demo_env ''images'' \<lparr>Name = ''trip.jpg'', IsDir = False\<rparr> demo_start)
     = [Open ''images/trip.jpg'',
        Get ''https://nominatim.openstreetmap.org/reverse?format=json&lat=38.000000&lon=-122.000000&zoom=10'',
        Stdout (''Moving trip.jpg to United States/California/Unknown/San Francisco County''
                @ newline),
        MkdirAll ''sorted_images/United_States/California/Unknown/San_Francisco_County'',
        Rename ''images/trip.jpg''
          ''sorted_images/United_States/California/Unknown/San_Francisco_County/trip.jpg'']"
    using driver_outcomes [of "\<lparr>Name = ''trip.jpg'', IsDir = False\<rparr>" "''images''" demo_env
        demo_start]
    by (simp add: run_simps demo_simps)
  have d: "trace (process_entry (demo_env\<lparr>os_Rename := \<lambda>old new w. (Some ''permission denied'', w)\<rparr>)
              ''images'' \<lparr>Name = ''trip.jpg'', IsDir = False\<rparr> demo_start)
     = [Open ''images/trip.jpg'',
        Get ''https://nominatim.openstreetmap.org/reverse?format=json&lat=38.000000&lon=-122.000000&zoom=10'',
        Stdout (''Moving trip.jpg to United States/California/Unknown/San Francisco County''
                @ newline),
        MkdirAll ''sorted_images/United_States/California/Unknown/San_Francisco_County'',
        Rename ''images/trip.jpg''
          ''sorted_images/United_States/California/Unknown/San_Francisco_County/trip.jpg'',
        Stdout (''Error moving file: permission denied'' @ newline)]"
    using driver_outcomes [of "\<lparr>Name = ''trip.jpg'', IsDir = False\<rparr>" "''images''"
        "demo_env\<lparr>os_Rename := \<lambda>old new w. (Some ''permission denied'', w)\<rparr>" demo_start]
    by (simp add: run_simps demo_simps)
  have e: "opened (trace (range_files demo_env ''images'' demo_files demo_start))
     = [''images/nogps.png'', ''images/broken.jpg'', ''images/trip.jpg'']"
    using driver_outcomes [where directory = "''images''" and env = demo_env and s = demo_start
        and files = demo_files]
    by (simp add: run_simps demo_simps)
  from a b c d e show ?thesis
    by blast
qed

lemma HasSuffix_shorter:
  assumes "HasSuffix s a" and "HasSuffix s b" and "length a \<le> length b"
  shows "a = drop (length b - length a) b"
proof -
  from assms have a: "a = drop (length s - length a) s" and b: "b = drop (length s - length b) s"
    and la: "length a \<le> length s" and lb: "length b \<le> length s"
    by (simp_all add: HasSuffix_def)
  have "drop (length b - length a) b = drop (length b - length a) (drop (length s - length b) s)"
    using b by simp
  also have "\<dots> = drop (length s - length a) s"
    using assms(3) lb by simp
  finally show ?thesis
    using a by simp
qed

lemma ToLower_simps:
  "ToLower (CHR ''.'') = CHR ''.''" "ToLower (CHR ''j'') = CHR ''j''"
  "ToLower (CHR ''p'') = CHR ''p''" "ToLower (CHR ''e'') = CHR ''e''"
  "ToLower (CHR ''g'') = CHR ''g''" "ToLower (CHR ''n'') = CHR ''n''"
  by (simp_all add: ToLower_def)

lemma case_variant_not_suffix:
  assumes "map ToLower ext \<in> {''.jpg'', ''.jpeg'', ''.png''}"
    and "ext \<notin> {''.jpg'', ''.jpeg'', ''.png''}"
    and "HasSuffix name ext"
  shows "\<not> HasSuffix name ''.jpg'' \<and> \<not> HasSuffix name ''.jpeg'' \<and> \<not> HasSuffix name ''.png''"
proof -
  have len: "length ext = 4 \<or> length ext = 5"
    using assms(1) by (auto dest: arg_cong [where f = length])
  have "False" if "HasSuffix name ''.jpg''"
    using len
  proof
    assume "length ext = 4"
    with HasSuffix_shorter [OF assms(3) that] assms(2) show False by simp
  next
    assume "length ext = 5"
    with HasSuffix_shorter [OF that assms(3)] have "drop 1 ext = ''.jpg''" by simp
    with assms(1) show False
      by (cases ext) (auto simp: ToLower_simps)
  qed
  moreover have "False" if "HasSuffix name ''.png''"
    using len
  proof
    assume "length ext = 4"
    with HasSuffix_shorter [OF assms(3) that] assms(2) show False by simp
  next
    assume "length ext = 5"
    with HasSuffix_shorter [OF that assms(3)] have "drop 1 ext = ''.png''" by simp
    with assms(1) show False
      by (cases ext) (auto simp: ToLower_simps)
  qed
  moreover have "False" if "HasSuffix name ''.jpeg''"
    using len
  proof
    assume "length ext = 4"
    with HasSuffix_shorter [OF assms(3) that] have "ext = ''jpeg''" by simp
    with assms(1) show False
      by (simp add: ToLower_simps)
  next
    assume "length ext = 5"
    with HasSuffix_shorter [OF assms(3) that] assms(2) show False by simp
  qed
  ultimately show ?thesis
    by blast
qed

lemma process_entry_first_event:
  assumes "candidate file"
  shows "\<exists>rest. trace (process_entry env directory file s)
                  = trace s @ Open (Join [directory, Name file]) # rest"
proof (cases "fst (getGeoInfo env (Join [directory, Name file]) s)")
  case (Inl err)
  with process_entry_outcome [OF assms, of directory env s] show ?thesis
    by (simp add: Let_def)
next
  case (Inr latlon)
  obtain lat lon where ll: "latlon = (lat, lon)"
    by (cases latlon)
  show ?thesis
  proof (cases "fst (getLocationDetails env lat lon
               (snd (getGeoInfo env (Join [directory, Name file]) s)))")
    case (Inl err)
    with process_entry_outcome [OF assms, of directory env s] Inr ll show ?thesis
      by (simp add: Let_def)
  next
    case (Inr place)
    with process_entry_outcome [OF assms, of directory env s] \<open>fst (getGeoInfo env (Join [directory, Name file]) s) = Inr latlon\<close> ll
    show ?thesis
      by (simp add: Let_def)
  qed
qed

text \<open>
  Claim C5. An entry that is not a directory and whose name ends in \<^verbatim>\<open>.jpg\<close>,
  \<^verbatim>\<open>.jpeg\<close> or \<^verbatim>\<open>.png\<close> is processed: the driver opens it. Every other entry leaves
  the state as it was. In particular an entry whose name ends in one of the three
  extensions written in another letter case, such as \<^verbatim>\<open>.JPG\<close>, is left untouched.
\<close>

theorem candidate_filter:
  "(\<not> IsDir file \<and>
      (HasSuffix (Name file) ''.jpg'' \<or> HasSuffix (Name file) ''.jpeg''
       \<or> HasSuffix (Name file) ''.png'') \<longrightarrow>
      (\<exists>rest. trace (process_entry env directory file s)
                = trace s @ Open (Join [directory, Name file]) # rest))
   \<and> (\<not> (\<not> IsDir file \<and>
           (HasSuffix (Name file) ''.jpg'' \<or> HasSuffix (Name file) ''.jpeg''
            \<or> HasSuffix (Name file) ''.png'')) \<longrightarrow>
        process_entry env directory file s = s)
   \<and> (\<forall>ext. map ToLower ext \<in> {''.jpg'', ''.jpeg'', ''.png''}
          \<and> ext \<notin> {''.jpg'', ''.jpeg'', ''.png''}
          \<and> HasSuffix (Name file) ext \<longrightarrow>
        process_entry env directory file s = s)"
proof -
  have 3: "\<forall>ext. map ToLower ext \<in> {''.jpg'', ''.jpeg'', ''.png''}
          \<and> ext \<notin> {''.jpg'', ''.jpeg'', ''.png''}
          \<and> HasSuffix (Name file) ext \<longrightarrow>
        process_entry env directory file s = s"
  proof (intro allI impI)
    fix ext
    assume h: "map ToLower ext \<in> {''.jpg'', ''.jpeg'', ''.png''}
          \<and> ext \<notin> {''.jpg'', ''.jpeg'', ''.png''}
          \<and> HasSuffix (Name file) ext"
    have "\<not> candidate file"
      using case_variant_not_suffix [OF h [THEN conjunct1] h [THEN conjunct2, THEN conjunct1]
          h [THEN conjunct2, THEN conjunct2]]
      by (simp add: candidate_def)
    then show "process_entry env directory file s = s"
      by (rule process_entry_skip)
  qed
  have 1: "\<not> IsDir file \<and>
      (HasSuffix (Name file) ''.jpg'' \<or> HasSuffix (Name file) ''.jpeg''
       \<or> HasSuffix (Name file) ''.png'') \<longrightarrow>
      (\<exists>rest. trace (process_entry env directory file s)
                = trace s @ Open (Join [directory, Name file]) # rest)"
    using process_entry_first_event [of "file" env directory s]
    by (simp add: candidate_def)
  have 2: "\<not> (\<not> IsDir file \<and>
           (HasSuffix (Name file) ''.jpg'' \<or> HasSuffix (Name file) ''.jpeg''
            \<or> HasSuffix (Name file) ''.png'')) \<longrightarrow>
        process_entry env directory file s = s"
    using process_entry_skip [of "file" env directory s]
    by (simp add: candidate_def)
  from 1 2 3 show ?thesis
    by (intro conjI)
qed

theorem candidate_filter_witness:
  "process_entry demo_env ''images'' \<lparr>Name = ''IMG.JPG'', IsDir = False\<rparr> demo_start = demo_start
   \<and> process_entry demo_env ''images'' \<lparr>Name = ''note.txt'', IsDir = False\<rparr> demo_start
       = demo_start
   \<and> process_entry demo_env ''images'' \<lparr>Name = ''album.jpeg'', IsDir = True\<rparr> demo_start
       = demo_start
   \<and> (\<exists>rest. trace (process_entry demo_env ''images'' \<lparr>Name = ''trip.jpg'', IsDir = False\<rparr>
                       demo_start) = Open ''images/trip.jpg'' # rest)"
proof -
  have a: "process_entry demo_env ''images'' \<lparr>Name = ''IMG.JPG'', IsDir = False\<rparr> demo_start
             = demo_start"
    using candidate_filter [of "\<lparr>Name = ''IMG.JPG'', IsDir = False\<rparr>" demo_env "''images''"
        demo_start, THEN conjunct2, THEN conjunct2, THEN spec, of "''.JPG''"]
    by (simp add: ToLower_def HasSuffix_def)
  have b: "process_entry demo_env ''images'' \<lparr>Name = ''note.txt'', IsDir = False\<rparr> demo_start
       = demo_start"
    using candidate_filter [of "\<lparr>Name = ''note.txt'', IsDir = False\<rparr>" demo_env "''images''"
        demo_start]
    by (simp add: HasSuffix_def)
  have c: "process_entry demo_env ''images'' \<lparr>Name = ''album.jpeg'', IsDir = True\<rparr> demo_start
       = demo_start"
    using candidate_filter [of "\<lparr>Name = ''album.jpeg'', IsDir = True\<rparr>" demo_env "''images''"
        demo_start]
    by simp
  have d: "\<exists>rest. trace (process_entry demo_env ''images'' \<lparr>Name = ''trip.jpg'', IsDir = False\<rparr>
                       demo_start) = Open ''images/trip.jpg'' # rest"
    using candidate_filter [of "\<lparr>Name = ''trip.jpg'', IsDir = False\<rparr>" demo_env "''images''"
        demo_start]
    by (simp add: HasSuffix_def demo_start_def Join_def Clean_def clean_step_def)
  from a b c d show ?thesis
    by blast
qed

subsection \<open>A run of the whole program\<close>

text \<open>
  The program on the small world: the text file, the upper-case extension and the
  subdirectory are passed over, the image without GPS tags and the image the service
  refuses are reported and left in place, and the third image is moved. A directory that
  cannot be listed ends the program with exit status 1.
\<close>

lemma demo_run:
  "main demo_env demo_start =
     (Returned,
      \<lparr>world = (),
       trace =
         [ReadDir ''images'',
          Open ''images/nogps.png'',
          Stdout (''No GPS data found for nogps.png'' @ newline),
          Open ''images/broken.jpg'',
          Get ''https://nominatim.openstreetmap.org/reverse?format=json&lat=1.000000&lon=2.000000&zoom=10'',
          Stdout (''Error getting location for broken.jpg: API error: 503'' @ newline),
          Open ''images/trip.jpg'',
          Get ''https://nominatim.openstreetmap.org/reverse?format=json&lat=38.000000&lon=-122.000000&zoom=10'',
          Stdout (''Moving trip.jpg to United States/California/Unknown/San Francisco County''
                  @ newline),
          MkdirAll ''sorted_images/United_States/California/Unknown/San_Francisco_County'',
          Rename ''images/trip.jpg''
            ''sorted_images/United_States/California/Unknown/San_Francisco_County/trip.jpg'']\<rparr>)"
  by (simp add: main_def processImages_def process_entry_def run_simps demo_simps)

lemma demo_missing_directory:
  "processImages demo_env ''photos'' demo_start =
     (Exited 1,
      \<lparr>world = (),
       trace = [ReadDir ''photos'', Fatal ''no such file or directory'']\<rparr>)"
  by (simp add: processImages_def run_simps demo_simps)

end
